theory Spec2Isabelle
  imports Complex_Main "HOL-Library.Multiset" "HOL-Library.Sublist"
begin

section \<open>Master counters and the scarcity overlay (hooks/useSupabaseSync.ts, second module)\<close>

text \<open>
  Counts are JavaScript numbers that hold integers (array lengths and their sums and
  differences), so they are modelled as \<open>int\<close>: a difference may be negative.
  Percentages are quotients; they are modelled as exact rationals. On the integers
  \<open>0 .. 10000\<close> the IEEE double computation \<open>(n / 10000) * 100 >= 18\<close> gives the same
  truth value as the exact one (the only critical point is \<open>n = 1800\<close>, where the double
  product is exactly \<open>18\<close>).
\<close>

definition TOTAL_TICKETS :: int where
  "TOTAL_TICKETS = 10000"

definition FOMO_THRESHOLD :: rat where
  "FOMO_THRESHOLD = 18"

record FomoResult =
  fomoCount :: int
  displaySoldCount :: int
  isActive :: bool

definition realPercentage :: "int \<Rightarrow> rat" where
  "realPercentage realSoldCount = (of_int realSoldCount / of_int TOTAL_TICKETS) * 100"

definition FOMO_BASE_FIXED :: int where
  "FOMO_BASE_FIXED = 1200"

definition calculateFOMO :: "int \<Rightarrow> FomoResult" where
  "calculateFOMO realSoldCount =
     (if realPercentage realSoldCount \<ge> FOMO_THRESHOLD
      then \<lparr>fomoCount = 0, displaySoldCount = realSoldCount, isActive = False\<rparr>
      else (let fomoTickets = FOMO_BASE_FIXED;
                displaySold = realSoldCount + fomoTickets
            in \<lparr>fomoCount = fomoTickets, displaySoldCount = displaySold, isActive = True\<rparr>))"

text \<open>
  The rows of the external \<open>tickets\<close> table, as far as the code reads and writes them.
  Timestamps are abstract numbers.
\<close>

datatype db_status = disponible | reservado | vendido

record db_ticket =
  t_number :: int
  t_status :: db_status
  t_customer_id :: "string option"
  t_reserved_at :: "nat option"
  t_sold_at :: "nat option"

text \<open>
  \<open>fetchRealData\<close>: the argument is the outcome of the query for the rows whose status is
  \<open>vendido\<close> or \<open>reservado\<close>; \<open>None\<close> is a query error or an exception, which the function
  catches and answers with zeros.
\<close>

definition fetchRealData :: "db_ticket list option \<Rightarrow> int \<times> int" where
  "fetchRealData ticketsData =
     (case ticketsData of
        None \<Rightarrow> (0, 0)
      | Some rows \<Rightarrow>
          (int (length (filter (\<lambda>t. t_status t = vendido) rows)),
           int (length (filter (\<lambda>t. t_status t = reservado) rows))))"

record MasterCounterData =
  totalTickets_mc :: int
  soldTickets_mc :: int
  reservedTickets_mc :: int
  availableTickets_mc :: int
  fomoSoldTickets_mc :: int
  fomoIsActive_mc :: bool
  soldPercentage_mc :: rat
  fomoPercentage_mc :: rat
  availablePercentage_mc :: rat
  isConnected_mc :: bool
  isLoading_mc :: bool

text \<open>
  The body of \<open>updateMasterCounters\<close> after the fetch: the snapshot built from the two
  counts. The field \<open>lastUpdate\<close> (the wall clock) is left out.
\<close>

definition newData :: "int \<Rightarrow> int \<Rightarrow> MasterCounterData" where
  "newData sold reserved =
     (let available = TOTAL_TICKETS - sold - reserved;
          fomo = calculateFOMO sold
      in \<lparr>totalTickets_mc = TOTAL_TICKETS,
          soldTickets_mc = sold,
          reservedTickets_mc = reserved,
          availableTickets_mc = available,
          fomoSoldTickets_mc = displaySoldCount fomo,
          fomoIsActive_mc = isActive fomo,
          soldPercentage_mc = (of_int sold / of_int TOTAL_TICKETS) * 100,
          fomoPercentage_mc = (of_int (displaySoldCount fomo) / of_int TOTAL_TICKETS) * 100,
          availablePercentage_mc = (of_int available / of_int TOTAL_TICKETS) * 100,
          isConnected_mc = True,
          isLoading_mc = False\<rparr>)"

definition updateMasterCounters :: "db_ticket list option \<Rightarrow> MasterCounterData" where
  "updateMasterCounters ticketsData =
     (case fetchRealData ticketsData of (sold, reserved) \<Rightarrow> newData sold reserved)"

text \<open>The snapshot of the \<open>catch\<close> branch, and the one shown while loading.\<close>

definition fallbackData :: MasterCounterData where
  "fallbackData =
     \<lparr>totalTickets_mc = TOTAL_TICKETS,
      soldTickets_mc = 0,
      reservedTickets_mc = 0,
      availableTickets_mc = TOTAL_TICKETS,
      fomoSoldTickets_mc = \<lfloor>of_int TOTAL_TICKETS * (8 / 100 :: rat)\<rfloor>,
      fomoIsActive_mc = True,
      soldPercentage_mc = 0,
      fomoPercentage_mc = 8,
      availablePercentage_mc = 100,
      isConnected_mc = False,
      isLoading_mc = False\<rparr>"

definition loadingData :: MasterCounterData where
  "loadingData = fallbackData\<lparr>isLoading_mc := True\<rparr>"

text \<open>The snapshots that reach the listeners.\<close>

inductive published :: "MasterCounterData \<Rightarrow> bool" where
  pub_update: "published (updateMasterCounters ticketsData)"
| pub_fallback: "published fallbackData"
| pub_loading: "published loadingData"

subsection \<open>The display hooks\<close>

record BasicCounters =
  totalTickets_bc :: int
  soldTickets_bc :: int
  availableTickets_bc :: int
  soldPercentage_bc :: rat
  isConnected_bc :: bool

definition useBasicCounters :: "MasterCounterData \<Rightarrow> BasicCounters" where
  "useBasicCounters d =
     (let displaySoldTickets = fomoSoldTickets_mc d;
          displayAvailableTickets = TOTAL_TICKETS - displaySoldTickets - reservedTickets_mc d
      in \<lparr>totalTickets_bc = totalTickets_mc d,
          soldTickets_bc = displaySoldTickets,
          availableTickets_bc = displayAvailableTickets,
          soldPercentage_bc = fomoPercentage_mc d,
          isConnected_bc = isConnected_mc d\<rparr>)"

record DisplayStats =
  soldCount_ds :: int
  availableCount_ds :: int
  reservedCount_ds :: int
  totalCount_ds :: int
  soldPercentage_ds :: rat
  realSoldCount_ds :: int
  isConnected_ds :: bool

definition useDisplayStats :: "MasterCounterData \<Rightarrow> DisplayStats" where
  "useDisplayStats d =
     (let displaySold = fomoSoldTickets_mc d;
          displayAvailableCount = TOTAL_TICKETS - displaySold - reservedTickets_mc d
      in \<lparr>soldCount_ds = displaySold,
          availableCount_ds = displayAvailableCount,
          reservedCount_ds = reservedTickets_mc d,
          totalCount_ds = totalTickets_mc d,
          soldPercentage_ds = fomoPercentage_mc d,
          realSoldCount_ds = soldTickets_mc d,
          isConnected_ds = isConnected_mc d\<rparr>)"

section \<open>The raffle store (stores/raffle-store.ts)\<close>

text \<open>
  Modelled from the spec: the type declarations of \<open>lib/types\<close> are absent; the spec's data
  model gives a ticket the statuses Available, Reserved and Sold (the string literals
  \<open>'available'\<close>, \<open>'reserved'\<close> and \<open>'sold'\<close> of the store).
\<close>

datatype TicketStatus = Available | Reserved | Sold

record Ticket =
  ticket_id :: string
  number :: string
  status :: TicketStatus
  buyerId :: "string option"
  reservedAt :: "nat option"
  purchaseDate :: "nat option"

text \<open>
  The fields of the store that the ticket actions read or write. The other fields
  (\<open>customerData\<close>, \<open>currentStep\<close>, \<open>liveActivities\<close>, \<open>viewingCount\<close>, \<open>adminConfig\<close>,
  \<open>loading\<close>) are copied unchanged by every action below.
\<close>

record RaffleState =
  tickets :: "Ticket list"
  selectedTickets :: "int list"
  soldTickets :: "int list"
  reservedTickets :: "int list"
  availableTickets :: "int list"
  errors :: "string list"

definition initialState :: RaffleState where
  "initialState =
     \<lparr>tickets = [], selectedTickets = [], soldTickets = [], reservedTickets = [],
      availableTickets = [], errors = []\<rparr>"

text \<open>
  Modelled from the spec: the store imports \<open>TOTAL_TICKETS\<close> from \<open>lib/constants\<close>, which is
  absent; the spec fixes the pool at 10,000 tickets, the value of the constant of the same
  name in the counters module, which is used here.
  \<open>_updateAvailableTickets\<close> keeps the numbers \<open>1 .. TOTAL_TICKETS\<close> that are in neither
  list.
\<close>

definition updateAvailableTickets :: "RaffleState \<Rightarrow> RaffleState" where
  "updateAvailableTickets s =
     (let unavailable = set (soldTickets s @ reservedTickets s);
          available = filter (\<lambda>num. num \<notin> unavailable) [1..TOTAL_TICKETS]
      in s\<lparr>availableTickets := available\<rparr>)"

definition setSoldTicketsFromDB :: "int list \<Rightarrow> RaffleState \<Rightarrow> RaffleState" where
  "setSoldTicketsFromDB ts s = updateAvailableTickets (s\<lparr>soldTickets := ts\<rparr>)"

definition setReservedTicketsFromDB :: "int list \<Rightarrow> RaffleState \<Rightarrow> RaffleState" where
  "setReservedTicketsFromDB ts s = updateAvailableTickets (s\<lparr>reservedTickets := ts\<rparr>)"

text \<open>
  The getters \<open>availableCount\<close>, \<open>soldCount\<close> and \<open>reservedCount\<close>, by their bodies: the
  lengths of the three lists of the current state.
\<close>

definition availableCount :: "RaffleState \<Rightarrow> int" where
  "availableCount s = int (length (availableTickets s))"

definition soldCount :: "RaffleState \<Rightarrow> int" where
  "soldCount s = int (length (soldTickets s))"

definition reservedCount :: "RaffleState \<Rightarrow> int" where
  "reservedCount s = int (length (reservedTickets s))"

definition realSum :: "RaffleState \<Rightarrow> int" where
  "realSum s = soldCount s + reservedCount s + availableCount s"

subsection \<open>Quick selection\<close>

text \<open>The decimal rendering of a length inside a template literal.\<close>

fun decimal :: "nat \<Rightarrow> string" where
  "decimal n =
     (if n < 10 then [''0123456789'' ! n]
      else decimal (n div 10) @ [''0123456789'' ! (n mod 10)])"

declare decimal.simps [simp del]

text \<open>\<open>xs.slice(0, end)\<close> for an integer \<open>end\<close>: a negative \<open>end\<close> counts from the back.\<close>

definition slice0 :: "'a list \<Rightarrow> int \<Rightarrow> 'a list" where
  "slice0 xs e = (if e < 0 then take (nat (int (length xs) + e)) xs else take (nat e) xs)"

text \<open>
  \<open>quickSelect\<close>. The argument \<open>shuffled\<close> is the outcome of
  \<open>[...availableTickets].sort(() => Math.random() - 0.5)\<close>: the engine's sort moves the
  elements of the copy about, so \<open>shuffled\<close> is a rearrangement of \<open>availableTickets\<close>;
  which one depends on the random comparator; how the rearrangements are distributed is
  not modelled. The count \<open>cnt\<close> is an integer.
\<close>

definition quickSelect :: "int list \<Rightarrow> int \<Rightarrow> RaffleState \<Rightarrow> RaffleState" where
  "quickSelect shuffled cnt s =
     (if int (length (availableTickets s)) < cnt
      then s\<lparr>errors := errors s @
                [''Solo hay '' @ decimal (length (availableTickets s)) @ '' tickets disponibles'']\<rparr>
      else (let selected = sort (slice0 shuffled cnt)
            in s\<lparr>selectedTickets := selected,
                 errors := filter (\<lambda>error. \<not> sublist ''tickets disponibles'' error) (errors s)\<rparr>))"

subsection \<open>Reservation, sale and release\<close>

text \<open>
  \<open>updatedTickets\<close>: a new ticket object replaces the first one with the same number, or
  is pushed at the end.
\<close>

fun upsertTicket :: "Ticket list \<Rightarrow> Ticket \<Rightarrow> Ticket list" where
  "upsertTicket [] newTicket = [newTicket]"
| "upsertTicket (t # ts) newTicket =
     (if number t = number newTicket then newTicket # ts else t # upsertTicket ts newTicket)"

text \<open>
  The three actions below are the synchronous state updates. Each of them also schedules
  \<open>_updateAvailableTickets\<close> with delay \<open>0\<close>, and \<open>reserveTickets\<close> schedules
  \<open>releaseReservedTickets\<close> of the same numbers after \<open>RESERVATION_TIME_MS\<close>.
  \<open>generateId\<close> (the id of the i-th new object) and \<open>formatTicketNumber\<close> come from
  \<open>lib/utils\<close>, which is absent: they are parameters, as is the clock \<open>now\<close>.
\<close>

definition reserveTickets ::
  "(nat \<Rightarrow> string) \<Rightarrow> (int \<Rightarrow> string) \<Rightarrow> nat \<Rightarrow> int list \<Rightarrow> string \<Rightarrow> RaffleState \<Rightarrow> RaffleState" where
  "reserveTickets generateId formatTicketNumber now ticketNumbers customerId s =
     (let newReservedTickets = reservedTickets s @ ticketNumbers;
          reservedTicketObjects =
            map (\<lambda>(i, num). \<lparr>ticket_id = generateId i, number = formatTicketNumber num,
                              status = Reserved, buyerId = Some customerId,
                              reservedAt = Some now, purchaseDate = None\<rparr>)
                (enumerate 0 ticketNumbers);
          updatedTickets = foldl upsertTicket (tickets s) reservedTicketObjects
      in s\<lparr>reservedTickets := newReservedTickets, tickets := updatedTickets,
           selectedTickets := []\<rparr>)"

definition markTicketsAsSold ::
  "(nat \<Rightarrow> string) \<Rightarrow> (int \<Rightarrow> string) \<Rightarrow> nat \<Rightarrow> int list \<Rightarrow> string \<Rightarrow> RaffleState \<Rightarrow> RaffleState" where
  "markTicketsAsSold generateId formatTicketNumber now ticketNumbers customerId s =
     (let newSoldTickets = soldTickets s @ ticketNumbers;
          updatedReservedTickets = filter (\<lambda>num. num \<notin> set ticketNumbers) (reservedTickets s);
          soldTicketObjects =
            map (\<lambda>(i, num). \<lparr>ticket_id = generateId i, number = formatTicketNumber num,
                              status = Sold, buyerId = Some customerId,
                              reservedAt = None, purchaseDate = Some now\<rparr>)
                (enumerate 0 ticketNumbers);
          updatedTickets = foldl upsertTicket (tickets s) soldTicketObjects
      in s\<lparr>soldTickets := newSoldTickets, reservedTickets := updatedReservedTickets,
           tickets := updatedTickets\<rparr>)"

text \<open>
  \<open>parseInt\<close> is the JavaScript builtin, a parameter here; \<open>None\<close> is \<open>NaN\<close>, which is
  not among the integers of \<open>ticketNumbers\<close>.
\<close>

definition releaseReservedTickets ::
  "(string \<Rightarrow> int option) \<Rightarrow> int list \<Rightarrow> RaffleState \<Rightarrow> RaffleState" where
  "releaseReservedTickets parseInt ticketNumbers s =
     (let updatedReservedTickets = filter (\<lambda>num. num \<notin> set ticketNumbers) (reservedTickets s);
          updatedTickets =
            map (\<lambda>ticket.
                   if (case parseInt (number ticket) of
                         None \<Rightarrow> False
                       | Some ticketNum \<Rightarrow> ticketNum \<in> set ticketNumbers)
                      \<and> status ticket = Reserved
                   then ticket\<lparr>status := Available, buyerId := None, reservedAt := None\<rparr>
                   else ticket)
                (tickets s)
      in s\<lparr>reservedTickets := updatedReservedTickets, tickets := updatedTickets\<rparr>)"

section \<open>Synchronisation with the database (hooks/useSupabaseSync.ts, first module)\<close>

text \<open>
  The \<open>while\<close> loop of \<open>generateFomoTickets\<close>. The list \<open>draws\<close> holds the successive
  values of \<open>Math.floor(Math.random() * totalTickets) + 1\<close>; the loop has no bound of its
  own, and \<open>None\<close> says that the draws ran out before it ended.
\<close>

fun fomoLoop :: "int \<Rightarrow> int list \<Rightarrow> int list \<Rightarrow> int list \<Rightarrow> int list option" where
  "fomoLoop fomoNeeded realTickets fomoTickets [] =
     (if int (length fomoTickets) < fomoNeeded then None else Some fomoTickets)"
| "fomoLoop fomoNeeded realTickets fomoTickets (randomTicket # draws) =
     (if int (length fomoTickets) < fomoNeeded
      then (if randomTicket \<notin> set realTickets \<and> randomTicket \<notin> set fomoTickets
            then fomoLoop fomoNeeded realTickets (fomoTickets @ [randomTicket]) draws
            else fomoLoop fomoNeeded realTickets fomoTickets draws)
      else Some fomoTickets)"

text \<open>
  \<open>fomoPercentage\<close> is the hook's state: \<open>8\<close> at first, later the floor of a number
  between \<open>8\<close> and \<open>18\<close>. For these integers the double computation of \<open>targetCount\<close>
  gives the exact value (a hundred times the percentage).
\<close>

definition generateFomoTickets :: "int \<Rightarrow> int list \<Rightarrow> int list \<Rightarrow> int list option" where
  "generateFomoTickets fomoPercentage draws realSoldTickets =
     (let totalTickets = 10000 :: int;
          currentPercentage =
            (of_int (int (length realSoldTickets)) / of_int totalTickets) * (100 :: rat)
      in if currentPercentage \<ge> 18 then Some realSoldTickets
         else (let targetCount = \<lfloor>(of_int fomoPercentage / 100) * (of_int totalTickets :: rat)\<rfloor>;
                   fomoNeeded = max 0 (targetCount - int (length realSoldTickets))
               in if fomoNeeded = 0 then Some realSoldTickets
                  else (case fomoLoop fomoNeeded realSoldTickets [] draws of
                          None \<Rightarrow> None
                        | Some fomoTickets \<Rightarrow> Some (sort (realSoldTickets @ fomoTickets)))))"

text \<open>
  \<open>loadInitialData\<close>, as far as it writes the store: \<open>isConnected\<close> is the answer of
  \<open>verificarConexion\<close>, \<open>ticketsData\<close> the outcome of the query for all rows (\<open>None\<close> is a
  query error). The result is \<open>None\<close> when the loop above does not end.
\<close>

definition loadInitialData ::
  "bool \<Rightarrow> db_ticket list option \<Rightarrow> int \<Rightarrow> int list \<Rightarrow> RaffleState \<Rightarrow> RaffleState option" where
  "loadInitialData isConnected ticketsData fomoPercentage draws s =
     (if \<not> isConnected then Some s
      else (case ticketsData of
              None \<Rightarrow> Some s
            | Some rows \<Rightarrow>
                (let realSoldTickets = map t_number (filter (\<lambda>t. t_status t = vendido) rows);
                     reservedNumbers = map t_number (filter (\<lambda>t. t_status t = reservado) rows)
                 in (case generateFomoTickets fomoPercentage draws realSoldTickets of
                       None \<Rightarrow> None
                     | Some visualSoldTickets \<Rightarrow>
                         Some (setReservedTicketsFromDB reservedNumbers
                                 (setSoldTicketsFromDB visualSoldTickets s))))))"

text \<open>
  \<open>reserveTicketsInDB\<close>: the conditional update of the rows whose number is requested and
  whose status is \<open>disponible\<close>. \<open>dbError\<close> says that the update reported an error or threw;
  the table is then as before. After a success the hook schedules \<open>loadInitialData\<close>.
\<close>

definition reserveTicketsInDB ::
  "bool \<Rightarrow> bool \<Rightarrow> nat \<Rightarrow> int list \<Rightarrow> string \<Rightarrow> db_ticket list \<Rightarrow> bool \<times> db_ticket list" where
  "reserveTicketsInDB isConnected dbError now ticketNumbers customerId db =
     (if \<not> isConnected then (False, db)
      else if dbError then (False, db)
      else (True,
            map (\<lambda>t. if t_number t \<in> set ticketNumbers \<and> t_status t = disponible
                      then t\<lparr>t_status := reservado, t_customer_id := Some customerId,
                             t_reserved_at := Some now\<rparr>
                      else t) db))"

section \<open>Notions used to state the properties\<close>

text \<open>
  What the ticket objects say: the pairs of number and status, in the order of the array.
  \<open>map_of (ticketView ts) k\<close> is the status of the first object whose number is \<open>k\<close>,
  the one that \<open>findIndex\<close> finds.
\<close>

definition ticketView :: "Ticket list \<Rightarrow> (string \<times> TicketStatus) list" where
  "ticketView ts = map (\<lambda>t. (number t, status t)) ts"

text \<open>
  Instances of the absent helpers, for the concrete examples only: ids \<open>t0\<close>, \<open>t1\<close>, ...
  and numbers padded to four digits.
\<close>

definition exampleId :: "nat \<Rightarrow> string" where
  "exampleId i = ''t'' @ decimal i"

definition formatTicketNumber4 :: "int \<Rightarrow> string" where
  "formatTicketNumber4 n =
     (let digits = decimal (nat n) in replicate (4 - length digits) (CHR ''0'') @ digits)"

text \<open>A run of the random source: the draws 1, 2, ..., 800, in this order.\<close>

definition exampleDraws :: "int list" where
  "exampleDraws = [1..800]"

section \<open>Properties of the overlay\<close>

lemma realPercentage_threshold:
  "(FOMO_THRESHOLD \<le> realPercentage n) = (1800 \<le> n)"
proof -
  have "(FOMO_THRESHOLD \<le> realPercentage n) = ((18::rat) \<le> of_int n / 100)"
    by (simp add: realPercentage_def TOTAL_TICKETS_def FOMO_THRESHOLD_def)
  also have "\<dots> = ((1800::rat) \<le> of_int n)"
    by (simp add: le_divide_eq)
  also have "\<dots> = (1800 \<le> n)"
    using of_int_le_iff [where ?'a = rat, of 1800 n] by simp
  finally show ?thesis .
qed

lemma displaySoldCount_calculateFOMO:
  "displaySoldCount (calculateFOMO n) = (if 1800 \<le> n then n else n + 1200)"
  by (simp add: calculateFOMO_def realPercentage_threshold FOMO_BASE_FIXED_def Let_def)

lemma isActive_calculateFOMO:
  "isActive (calculateFOMO n) = (n < 1800)"
  by (auto simp add: calculateFOMO_def realPercentage_threshold Let_def)

lemma published_total:
  "published d \<Longrightarrow> totalTickets_mc d = TOTAL_TICKETS"
  by (induction rule: published.induct)
     (simp_all add: updateMasterCounters_def newData_def fallbackData_def loadingData_def
        Let_def split: prod.splits)

section \<open>Properties of the store actions\<close>

lemma release_idem:
  "releaseReservedTickets p ns (releaseReservedTickets p ns s) = releaseReservedTickets p ns s"
  by (simp add: releaseReservedTickets_def Let_def comp_def cong: map_cong)

lemma release_update_commute:
  "releaseReservedTickets p ns (updateAvailableTickets s)
     = (releaseReservedTickets p ns s)\<lparr>availableTickets := availableTickets (updateAvailableTickets s)\<rparr>"
  by (simp add: releaseReservedTickets_def updateAvailableTickets_def Let_def)

lemma update_idem:
  "updateAvailableTickets (updateAvailableTickets s) = updateAvailableTickets s"
  by (simp add: updateAvailableTickets_def Let_def)

lemma update_avail_irrelevant:
  "updateAvailableTickets (s\<lparr>availableTickets := a\<rparr>) = updateAvailableTickets s"
  by (simp add: updateAvailableTickets_def Let_def)

lemma map_of_upsert:
  "map_of (ticketView (upsertTicket ts t)) = (map_of (ticketView ts))(number t \<mapsto> status t)"
  by (induction ts) (auto simp add: ticketView_def)

lemma upsert_view_same:
  "map_of (ticketView ts) (number t) = Some (status t) \<Longrightarrow>
     ticketView (upsertTicket ts t) = ticketView ts"
  by (induction ts) (auto simp add: ticketView_def)

lemma foldl_upsert_view_same:
  "(\<And>t. t \<in> set new \<Longrightarrow> map_of (ticketView ts) (number t) = Some (status t)) \<Longrightarrow>
     ticketView (foldl upsertTicket ts new) = ticketView ts"
proof (induction new arbitrary: ts)
  case Nil
  then show ?case by simp
next
  case (Cons t new)
  have same: "ticketView (upsertTicket ts t) = ticketView ts"
    using Cons.prems [of t] by (simp add: upsert_view_same)
  have "ticketView (foldl upsertTicket (upsertTicket ts t) new) = ticketView (upsertTicket ts t)"
  proof (rule Cons.IH)
    fix u assume "u \<in> set new"
    then show "map_of (ticketView (upsertTicket ts t)) (number u) = Some (status u)"
      using Cons.prems [of u] by (simp add: same)
  qed
  then show ?case by (simp add: same)
qed

lemma map_of_foldl_upsert:
  "(\<And>t. t \<in> set new \<Longrightarrow> status t = st) \<Longrightarrow> k \<in> number ` set new \<Longrightarrow>
     map_of (ticketView (foldl upsertTicket ts new)) k = Some st"
proof (induction new arbitrary: ts rule: rev_induct)
  case Nil
  then show ?case by simp
next
  case (snoc t new)
  show ?case
  proof (cases "k = number t")
    case True
    then show ?thesis using snoc.prems(1) [of t] by (simp add: map_of_upsert)
  next
    case False
    then have "k \<in> number ` set new" using snoc.prems(2) by auto
    then have "map_of (ticketView (foldl upsertTicket ts new)) k = Some st"
      using snoc.IH snoc.prems(1) by simp
    then show ?thesis using False by (simp add: map_of_upsert)
  qed
qed

lemma reserve_fields:
  "reservedTickets (reserveTickets g f now ns c s) = reservedTickets s @ ns"
  "soldTickets (reserveTickets g f now ns c s) = soldTickets s"
  "availableTickets (reserveTickets g f now ns c s) = availableTickets s"
  "selectedTickets (reserveTickets g f now ns c s) = []"
  "errors (reserveTickets g f now ns c s) = errors s"
  by (simp_all add: reserveTickets_def Let_def)

lemma mark_fields:
  "soldTickets (markTicketsAsSold g f now ns c s) = soldTickets s @ ns"
  "reservedTickets (markTicketsAsSold g f now ns c s)
     = filter (\<lambda>num. num \<notin> set ns) (reservedTickets s)"
  "availableTickets (markTicketsAsSold g f now ns c s) = availableTickets s"
  "selectedTickets (markTicketsAsSold g f now ns c s) = selectedTickets s"
  "errors (markTicketsAsSold g f now ns c s) = errors s"
  by (simp_all add: markTicketsAsSold_def Let_def)

lemma setFromDB_fields:
  "soldTickets (setSoldTicketsFromDB ts s) = ts"
  "reservedTickets (setSoldTicketsFromDB ts s) = reservedTickets s"
  "soldTickets (setReservedTicketsFromDB ts s) = soldTickets s"
  "reservedTickets (setReservedTicketsFromDB ts s) = ts"
  by (simp_all add: setSoldTicketsFromDB_def setReservedTicketsFromDB_def
        updateAvailableTickets_def Let_def)

lemma objects_numbers:
  assumes "\<And>i n. number (mk i n) = f n"
  shows "number ` set (map (\<lambda>(i, n). mk i n) (enumerate k ns)) = f ` set ns"
  by (induction ns arbitrary: k) (simp_all add: assms)

lemma objects_status:
  assumes "\<And>i n. status (mk i n) = st"
  shows "t \<in> set (map (\<lambda>(i, n). mk i n) (enumerate k ns)) \<Longrightarrow> status t = st"
  using assms by (auto simp add: case_prod_unfold)

lemma new_objects_view:
  assumes "\<And>i n. number (mk i n) = f n" and "\<And>i n. status (mk i n) = st" and "n \<in> set ns"
  shows "map_of (ticketView (foldl upsertTicket ts
            (map (\<lambda>(i, n). mk i n) (enumerate 0 ns)))) (f n) = Some st"
proof (rule map_of_foldl_upsert)
  show "\<And>t. t \<in> set (map (\<lambda>(i, n). mk i n) (enumerate 0 ns)) \<Longrightarrow> status t = st"
    using assms(2) by (rule objects_status)
  show "f n \<in> number ` set (map (\<lambda>(i, n). mk i n) (enumerate 0 ns))"
    using assms(3) by (simp only: objects_numbers [of mk f, OF assms(1)]) simp
qed

lemma reserve_status:
  assumes "n \<in> set ns"
  shows "map_of (ticketView (tickets (reserveTickets g f now ns c s))) (f n) = Some Reserved"
proof -
  let ?mk = "\<lambda>i num. \<lparr>ticket_id = g i, number = f num, status = Reserved,
                 buyerId = Some c, reservedAt = Some now, purchaseDate = None\<rparr>"
  have eq: "tickets (reserveTickets g f now ns c s)
              = foldl upsertTicket (tickets s) (map (\<lambda>(i, num). ?mk i num) (enumerate 0 ns))"
    by (simp add: reserveTickets_def Let_def)
  have "map_of (ticketView (foldl upsertTicket (tickets s)
          (map (\<lambda>(i, num). ?mk i num) (enumerate 0 ns)))) (f n) = Some Reserved"
    by (rule new_objects_view) (simp_all add: assms)
  then show ?thesis
    by (simp only: eq)
qed

lemma mark_status:
  assumes "n \<in> set ns"
  shows "map_of (ticketView (tickets (markTicketsAsSold g f now ns c s))) (f n) = Some Sold"
proof -
  let ?mk = "\<lambda>i num. \<lparr>ticket_id = g i, number = f num, status = Sold,
                 buyerId = Some c, reservedAt = None, purchaseDate = Some now\<rparr>"
  have eq: "tickets (markTicketsAsSold g f now ns c s)
              = foldl upsertTicket (tickets s) (map (\<lambda>(i, num). ?mk i num) (enumerate 0 ns))"
    by (simp add: markTicketsAsSold_def Let_def)
  have "map_of (ticketView (foldl upsertTicket (tickets s)
          (map (\<lambda>(i, num). ?mk i num) (enumerate 0 ns)))) (f n) = Some Sold"
    by (rule new_objects_view) (simp_all add: assms)
  then show ?thesis
    by (simp only: eq)
qed

lemma mark_twice_view:
  "ticketView (tickets (markTicketsAsSold g' f now' ns c' (markTicketsAsSold g f now ns c s)))
     = ticketView (tickets (markTicketsAsSold g f now ns c s))"
proof -
  let ?s1 = "markTicketsAsSold g f now ns c s"
  let ?mk = "\<lambda>i num. \<lparr>ticket_id = g' i, number = f num, status = Sold,
                 buyerId = Some c', reservedAt = None, purchaseDate = Some now'\<rparr>"
  let ?new = "map (\<lambda>(i, num). ?mk i num) (enumerate 0 ns)"
  have "ticketView (foldl upsertTicket (tickets ?s1) ?new) = ticketView (tickets ?s1)"
  proof (rule foldl_upsert_view_same)
    fix t assume t: "t \<in> set ?new"
    have st: "status t = Sold"
      using t by (rule objects_status [of ?mk Sold, rotated]) simp
    have "number ` set ?new = f ` set ns"
      by (rule objects_numbers) simp
    then have "number t \<in> f ` set ns"
      using t by blast
    then obtain n where "n \<in> set ns" and "number t = f n"
      by blast
    then show "map_of (ticketView (tickets ?s1)) (number t) = Some (status t)"
      using st by (simp add: mark_status)
  qed
  moreover have "tickets (markTicketsAsSold g' f now' ns c' ?s1)
                   = foldl upsertTicket (tickets ?s1) ?new"
    by (simp add: markTicketsAsSold_def [of g' f now' ns c' ?s1] Let_def)
  ultimately show ?thesis
    by (simp only:)
qed

lemma reserveInDB_result:
  "reserveTicketsInDB True False now ns c db =
     (True, map (\<lambda>t. if t_number t \<in> set ns \<and> t_status t = disponible
                      then t\<lparr>t_status := reservado, t_customer_id := Some c,
                             t_reserved_at := Some now\<rparr>
                      else t) db)"
  by (simp add: reserveTicketsInDB_def)

lemma reserveInDB_numbers:
  "map t_number (snd (reserveTicketsInDB True False now ns c db)) = map t_number db"
  by (induction db) (simp_all add: reserveInDB_result)

lemma reserveInDB_statuses:
  "map t_status (snd (reserveTicketsInDB True False now ns c db))
     = map (\<lambda>t. if t_number t \<in> set ns \<and> t_status t = disponible
                  then reservado else t_status t) db"
  by (induction db) (simp_all add: reserveInDB_result)

lemma reserve_status_all:
  "map (\<lambda>n. map_of (ticketView (tickets (reserveTickets g f now ns c s))) (f n)) ns
     = map (\<lambda>n. Some Reserved) ns"
  by (rule map_cong) (simp_all add: reserve_status)

lemma mark_status_all:
  "map (\<lambda>n. map_of (ticketView (tickets (markTicketsAsSold g f now ns c s))) (f n)) ns
     = map (\<lambda>n. Some Sold) ns"
  by (rule map_cong) (simp_all add: mark_status)

section \<open>Properties of quick selection\<close>

lemma slice0_length:
  "0 \<le> c \<Longrightarrow> c \<le> int (length xs) \<Longrightarrow> int (length (slice0 xs c)) = c"
  by (simp add: slice0_def)

lemma slice0_neg_length:
  "c < 0 \<Longrightarrow> length (slice0 xs c) = nat (int (length xs) + c)"
  by (simp add: slice0_def)

lemma slice0_subset: "set (slice0 xs c) \<subseteq> set xs"
  by (simp add: slice0_def set_take_subset)

lemma slice0_distinct: "distinct xs \<Longrightarrow> distinct (slice0 xs c)"
  by (simp add: slice0_def)

lemma quickSelect_fail:
  "int (length (availableTickets s)) < cnt \<Longrightarrow>
     quickSelect shuffled cnt s =
       s\<lparr>errors := errors s @
            [''Solo hay '' @ decimal (length (availableTickets s)) @ '' tickets disponibles'']\<rparr>"
  by (simp add: quickSelect_def)

lemma quickSelect_selected:
  "\<not> int (length (availableTickets s)) < cnt \<Longrightarrow>
     selectedTickets (quickSelect shuffled cnt s) = sort (slice0 shuffled cnt)"
  by (simp add: quickSelect_def Let_def)

lemma updateAvailable_initial:
  "availableTickets (updateAvailableTickets initialState) = [1..TOTAL_TICKETS]"
  by (simp add: updateAvailableTickets_def initialState_def Let_def)

lemma updateAvailable_distinct:
  "distinct (availableTickets (updateAvailableTickets s))"
  by (simp add: updateAvailableTickets_def Let_def)

lemma upto_first_three: "3 \<le> n \<Longrightarrow> [1..n] = 1 # 2 # 3 # [4..n]"
  by (simp add: upto_rec1 [of 1 n] upto_rec1 [of 2 n] upto_rec1 [of 3 n])

lemma first_three_drawn: "sort (slice0 [1..TOTAL_TICKETS] 3) = [1, 2, 3]"
proof -
  have "[1..TOTAL_TICKETS] = 1 # 2 # 3 # [4..TOTAL_TICKETS]"
    by (rule upto_first_three) (simp add: TOTAL_TICKETS_def)
  then have "slice0 [1..TOTAL_TICKETS] 3 = [1, 2, 3]"
    by (simp add: slice0_def numeral_3_eq_3)
  then show ?thesis
    by simp
qed

lemma available_initial_length:
  "int (length (availableTickets (updateAvailableTickets initialState))) = 10000"
  by (simp only: updateAvailable_initial length_upto) (simp add: TOTAL_TICKETS_def)

lemma decimal_10000: "decimal 10000 = ''10000''"
  by (simp add: decimal.simps)

text \<open>
  What \<open>quickSelect\<close> does for a count of at least 0, whichever rearrangement the sort
  produced: with too few available tickets it only appends the message; otherwise it
  selects the first \<open>cnt\<close> elements of the rearrangement, in ascending order.
\<close>

lemma quickSelect_contract:
  assumes "mset shuffled = mset (availableTickets s)"
    and "distinct (availableTickets s)"
    and "0 \<le> cnt"
  shows "(int (length (availableTickets s)) < cnt \<longrightarrow>
            quickSelect shuffled cnt s =
              s\<lparr>errors := errors s @
                   [''Solo hay '' @ decimal (length (availableTickets s)) @ '' tickets disponibles'']\<rparr>
            \<and> selectedTickets (quickSelect shuffled cnt s) = selectedTickets s)
         \<and> (cnt \<le> int (length (availableTickets s)) \<longrightarrow>
            selectedTickets (quickSelect shuffled cnt s) = sort (slice0 shuffled cnt)
            \<and> int (length (selectedTickets (quickSelect shuffled cnt s))) = cnt
            \<and> distinct (selectedTickets (quickSelect shuffled cnt s))
            \<and> set (selectedTickets (quickSelect shuffled cnt s)) \<subseteq> set (availableTickets s)
            \<and> sorted (selectedTickets (quickSelect shuffled cnt s)))"
proof -
  have len: "length shuffled = length (availableTickets s)"
    using assms(1) by (rule mset_eq_length)
  have set_eq: "set shuffled = set (availableTickets s)"
    using assms(1) by (rule mset_eq_setD)
  have dist: "distinct shuffled"
    using assms(1,2) by (metis distinct_count_atmost_1 set_eq)
  show ?thesis
  proof (intro conjI impI)
    assume few: "int (length (availableTickets s)) < cnt"
    show "quickSelect shuffled cnt s =
            s\<lparr>errors := errors s @
                 [''Solo hay '' @ decimal (length (availableTickets s)) @ '' tickets disponibles'']\<rparr>"
      using few by (rule quickSelect_fail)
    then show "selectedTickets (quickSelect shuffled cnt s) = selectedTickets s"
      by simp
  next
    assume enough: "cnt \<le> int (length (availableTickets s))"
    then have ok: "\<not> int (length (availableTickets s)) < cnt" by simp
    note sel = quickSelect_selected [OF ok, of shuffled]
    show "selectedTickets (quickSelect shuffled cnt s) = sort (slice0 shuffled cnt)"
      by (rule sel)
    show "int (length (selectedTickets (quickSelect shuffled cnt s))) = cnt"
      using slice0_length [of cnt shuffled] assms(3) enough by (simp add: sel len)
    show "distinct (selectedTickets (quickSelect shuffled cnt s))"
      using slice0_distinct [OF dist, of cnt] by (simp add: sel)
    show "set (selectedTickets (quickSelect shuffled cnt s)) \<subseteq> set (availableTickets s)"
      using slice0_subset [of shuffled cnt] by (simp add: sel set_eq)
    show "sorted (selectedTickets (quickSelect shuffled cnt s))"
      by (simp add: sel)
  qed
qed

text \<open>
  With all 10000 tickets available and the rearrangement that leaves the order as it is:
  the count 3 selects 1, 2, 3; the count 10001 reports the error and selects nothing.
\<close>

lemma quickSelect_contract_example:
  "mset [1..TOTAL_TICKETS] = mset (availableTickets (updateAvailableTickets initialState))
   \<and> distinct (availableTickets (updateAvailableTickets initialState))
   \<and> (0::int) \<le> 3
   \<and> 3 \<le> int (length (availableTickets (updateAvailableTickets initialState)))
   \<and> selectedTickets (quickSelect [1..TOTAL_TICKETS] 3 (updateAvailableTickets initialState))
        = [1, 2, 3]
   \<and> (0::int) \<le> 10001
   \<and> int (length (availableTickets (updateAvailableTickets initialState))) < 10001
   \<and> errors (quickSelect [1..TOTAL_TICKETS] 10001 (updateAvailableTickets initialState))
        = [''Solo hay 10000 tickets disponibles'']
   \<and> selectedTickets (quickSelect [1..TOTAL_TICKETS] 10001 (updateAvailableTickets initialState))
        = []"
proof -
  let ?s = "updateAvailableTickets initialState"
  have perm: "mset [1..TOTAL_TICKETS] = mset (availableTickets ?s)"
    by (simp only: updateAvailable_initial)
  have dist: "distinct (availableTickets ?s)"
    by (rule updateAvailable_distinct)
  have len: "length (availableTickets ?s) = 10000"
    using available_initial_length by simp
  have errs: "errors ?s = []" and sel: "selectedTickets ?s = []"
    by (simp_all add: updateAvailableTickets_def initialState_def Let_def)
  have enough: "selectedTickets (quickSelect [1..TOTAL_TICKETS] 3 ?s) = [1, 2, 3]"
    using quickSelect_contract [OF perm dist, of 3] by (simp add: len first_three_drawn)
  have few: "quickSelect [1..TOTAL_TICKETS] 10001 ?s
               = ?s\<lparr>errors := errors ?s @ [''Solo hay '' @ decimal (length (availableTickets ?s))
                     @ '' tickets disponibles'']\<rparr>"
    using quickSelect_contract [OF perm dist, of 10001] by (simp add: len)
  have "errors (quickSelect [1..TOTAL_TICKETS] 10001 ?s) = [''Solo hay 10000 tickets disponibles'']"
    by (simp add: few errs len decimal_10000)
  moreover have "selectedTickets (quickSelect [1..TOTAL_TICKETS] 10001 ?s) = []"
    by (simp add: few sel)
  ultimately show ?thesis
    using perm dist enough by (simp add: len)
qed

section \<open>Properties of the synchronisation and of the counts of the store\<close>

lemma exampleDraws_facts:
  "length exampleDraws = 800" "distinct exampleDraws" "set exampleDraws = {1..800}"
  "sorted exampleDraws"
  by (simp_all add: exampleDraws_def del: upto_rec_numeral)

lemma fomoLoop_accepts:
  "distinct draws \<Longrightarrow> set draws \<inter> set realTickets = {} \<Longrightarrow> set draws \<inter> set acc = {} \<Longrightarrow>
     int (length acc) + int (length draws) = needed \<Longrightarrow>
     fomoLoop needed realTickets acc draws = Some (acc @ draws)"
proof (induction draws arbitrary: acc)
  case Nil
  then show ?case by simp
next
  case (Cons d draws)
  have "fomoLoop needed realTickets (acc @ [d]) draws = Some ((acc @ [d]) @ draws)"
    using Cons.prems by (intro Cons.IH) auto
  then show ?case
    using Cons.prems by auto
qed

lemma generateFomo_example: "generateFomoTickets 8 exampleDraws [] = Some exampleDraws"
proof -
  have loop: "fomoLoop 800 [] [] exampleDraws = Some ([] @ exampleDraws)"
    by (rule fomoLoop_accepts) (simp_all add: exampleDraws_facts)
  have "sort exampleDraws = exampleDraws"
    using exampleDraws_facts(4) by (rule sorted_sort_id)
  then show ?thesis
    using loop by (simp add: generateFomoTickets_def Let_def)
qed

lemma available_example:
  "filter (\<lambda>num. num \<notin> set (exampleDraws @ [1])) [1..TOTAL_TICKETS] = [801..TOTAL_TICKETS]"
proof -
  have split: "[1..TOTAL_TICKETS] = [1..800] @ [800 + 1..TOTAL_TICKETS]"
    by (rule upto_split2) (simp_all add: TOTAL_TICKETS_def)
  have un: "set (exampleDraws @ [1]) = {1..800}"
    by (auto simp add: exampleDraws_facts)
  have "filter (\<lambda>num. num \<notin> {1..800}) [1..800] = []"
    by (simp del: upto_rec_numeral)
  moreover have "filter (\<lambda>num. num \<notin> {1..800}) [801..TOTAL_TICKETS] = [801..TOTAL_TICKETS]"
    by (simp add: filter_id_conv)
  ultimately show ?thesis
    by (simp only: un split filter_append) (simp del: upto_rec_numeral)
qed

lemma loadInitialData_example:
  "loadInitialData True
     (Some [\<lparr>t_number = 1, t_status = reservado, t_customer_id = Some ''H'',
             t_reserved_at = Some 0, t_sold_at = None\<rparr>])
     8 exampleDraws initialState
   = Some (initialState\<lparr>soldTickets := exampleDraws, reservedTickets := [1],
                        availableTickets := [801..TOTAL_TICKETS]\<rparr>)"
proof -
  have st: "setReservedTicketsFromDB [1] (setSoldTicketsFromDB exampleDraws initialState)
          = initialState\<lparr>soldTickets := exampleDraws, reservedTickets := [1],
              availableTickets := filter (\<lambda>num. num \<notin> set (exampleDraws @ [1])) [1..TOTAL_TICKETS]\<rparr>"
    by (simp add: setReservedTicketsFromDB_def setSoldTicketsFromDB_def
          updateAvailableTickets_def Let_def initialState_def)
  have ld: "loadInitialData True
     (Some [\<lparr>t_number = 1, t_status = reservado, t_customer_id = Some ''H'',
             t_reserved_at = Some 0, t_sold_at = None\<rparr>])
     8 exampleDraws initialState
      = Some (setReservedTicketsFromDB [1] (setSoldTicketsFromDB exampleDraws initialState))"
    by (simp add: loadInitialData_def generateFomo_example)
  show ?thesis
    by (simp only: ld st available_example)
qed

lemma available_length:
  "length (availableTickets (updateAvailableTickets s))
     = card ({1..TOTAL_TICKETS} - set (soldTickets s @ reservedTickets s))"
proof -
  have "length (filter (\<lambda>num. num \<notin> set (soldTickets s @ reservedTickets s)) [1..TOTAL_TICKETS])
          = card ({x. x \<notin> set (soldTickets s @ reservedTickets s)} \<inter> set [1..TOTAL_TICKETS])"
    by (rule distinct_length_filter) simp
  moreover have "{x. x \<notin> set (soldTickets s @ reservedTickets s)} \<inter> set [1..TOTAL_TICKETS]
                   = {1..TOTAL_TICKETS} - set (soldTickets s @ reservedTickets s)"
    by auto
  ultimately show ?thesis
    by (simp add: updateAvailableTickets_def Let_def)
qed

lemma realSum_update:
  "realSum (updateAvailableTickets s)
     = int (length (soldTickets s @ reservedTickets s))
       + int (card ({1..TOTAL_TICKETS} - set (soldTickets s @ reservedTickets s)))"
  using available_length [of s]
  by (simp add: realSum_def soldCount_def reservedCount_def availableCount_def
        updateAvailableTickets_def Let_def)

lemma count_balance:
  fixes xs :: "int list"
  shows "(int (length xs) + int (card ({1..N} - set xs)) = N \<and> 0 \<le> N)
           = (distinct xs \<and> set xs \<subseteq> {1..N} \<and> 0 \<le> N)"
proof (cases "0 \<le> N")
  case False
  then show ?thesis by simp
next
  case True
  let ?U = "set xs" and ?R = "{1..N}"
  have cardR: "int (card ?R) = N" using True by simp
  have diff: "card (?R - ?U) = card ?R - card (?U \<inter> ?R)"
    by (metis card_Diff_subset_Int finite_Int finite_set inf_commute)
  have le1: "card (?U \<inter> ?R) \<le> card ?U"
    by (rule card_mono) auto
  have le2: "card ?U \<le> length xs"
    by (rule card_length)
  have le3: "card (?U \<inter> ?R) \<le> card ?R"
    by (rule card_mono) auto
  have sum: "int (length xs) + int (card (?R - ?U))
               = int (length xs) + N - int (card (?U \<inter> ?R))"
    using diff le3 cardR by simp
  show ?thesis
  proof
    assume "int (length xs) + int (card (?R - ?U)) = N \<and> 0 \<le> N"
    then have "length xs = card (?U \<inter> ?R)"
      using sum by simp
    then have a: "card ?U = length xs" and b: "card (?U \<inter> ?R) = card ?U"
      using le1 le2 by simp_all
    have "?U \<inter> ?R = ?U"
      using b by (intro card_subset_eq) simp_all
    then have "?U \<subseteq> ?R" by blast
    then show "distinct xs \<and> set xs \<subseteq> {1..N} \<and> 0 \<le> N"
      using a True by (simp add: card_distinct)
  next
    assume r: "distinct xs \<and> set xs \<subseteq> {1..N} \<and> 0 \<le> N"
    then have "?U \<inter> ?R = ?U" by blast
    then have "card (?U \<inter> ?R) = length xs"
      using r by (simp add: distinct_card)
    then show "int (length xs) + int (card (?R - ?U)) = N \<and> 0 \<le> N"
      using sum True by simp
  qed
qed

section \<open>Claims about the overlay and the display layer\<close>

text \<open>
  C6. Overlay activation rule of \<open>calculateFOMO\<close>: when the real sold percentage is at or
  above the threshold of 18 the overlay is off and the displayed sold count is the real
  one; below the threshold the overlay is on and the displayed sold count is the real one
  plus the fixed additive 1200.
\<close>

theorem overlay_activation_rule:
  "(18 \<le> realPercentage n \<longrightarrow>
      \<not> isActive (calculateFOMO n) \<and> fomoCount (calculateFOMO n) = 0 \<and>
      displaySoldCount (calculateFOMO n) = n)
   \<and> (realPercentage n < 18 \<longrightarrow>
      isActive (calculateFOMO n) \<and> fomoCount (calculateFOMO n) = 1200 \<and>
      displaySoldCount (calculateFOMO n) = n + 1200)"
  by (simp add: calculateFOMO_def FOMO_THRESHOLD_def FOMO_BASE_FIXED_def Let_def not_le)

text \<open>C6, at the threshold (1800 sold, overlay off) and just below it (1799 sold, overlay on).\<close>

theorem overlay_activation_rule_witness:
  "18 \<le> realPercentage 1800 \<and> displaySoldCount (calculateFOMO 1800) = 1800
   \<and> realPercentage 1799 < 18 \<and> displaySoldCount (calculateFOMO 1799) = 2999"
proof -
  have a: "18 \<le> realPercentage 1800"
    by (simp add: realPercentage_def TOTAL_TICKETS_def)
  have b: "realPercentage 1799 < 18"
    by (simp add: realPercentage_def TOTAL_TICKETS_def)
  show ?thesis
    using overlay_activation_rule [of 1800] overlay_activation_rule [of 1799] a b by simp
qed

text \<open>
  C1, as stated, fails: nothing clamps the additive. With no ticket sold and 9000 reserved
  (so sold + reserved does not exceed the total) the overlay shows 1200 sold and the
  derived display-available count is \<open>10000 - 1200 - 9000 = -200\<close>.
\<close>

theorem overlay_unclamped_counterexample:
  "(0::int) \<le> 0 \<and> (0::int) \<le> 9000 \<and> 0 + 9000 \<le> TOTAL_TICKETS
   \<and> soldTickets_bc (useBasicCounters (newData 0 9000)) = 1200
   \<and> availableTickets_bc (useBasicCounters (newData 0 9000)) = - 200"
  by (simp add: useBasicCounters_def newData_def Let_def displaySoldCount_calculateFOMO
        TOTAL_TICKETS_def)

text \<open>
  C1, amended. For non-negative counts with sold + reserved within the total, the
  display-available count of \<open>useBasicCounters\<close> is non-negative exactly when the overlay
  is off (at least 1800 sold) or sold + reserved is at most 8800; the three display
  numbers always add up to the total; and for 8900 sold and 50 reserved the overlay is off,
  the displayed sold count is 8900 (below 9950) and 1050 are displayed as available.
\<close>

theorem overlay_display_available_sign:
  assumes "0 \<le> sold" and "0 \<le> reserved" and "sold + reserved \<le> TOTAL_TICKETS"
  shows "(0 \<le> availableTickets_bc (useBasicCounters (newData sold reserved)))
           = (1800 \<le> sold \<or> sold + reserved \<le> 8800)
         \<and> soldTickets_bc (useBasicCounters (newData sold reserved))
             + availableTickets_bc (useBasicCounters (newData sold reserved)) + reserved
           = TOTAL_TICKETS
         \<and> soldTickets_bc (useBasicCounters (newData 8900 50)) = 8900
         \<and> availableTickets_bc (useBasicCounters (newData 8900 50)) = 1050"
  using assms
  by (auto simp add: useBasicCounters_def newData_def Let_def displaySoldCount_calculateFOMO
        TOTAL_TICKETS_def)

text \<open>C1, amended, at 8900 sold and 50 reserved.\<close>

theorem overlay_display_available_sign_witness:
  "(0::int) \<le> 8900 \<and> (0::int) \<le> 50 \<and> 8900 + 50 \<le> TOTAL_TICKETS
   \<and> 0 \<le> availableTickets_bc (useBasicCounters (newData 8900 50))
   \<and> soldTickets_bc (useBasicCounters (newData 8900 50)) = 8900
   \<and> availableTickets_bc (useBasicCounters (newData 8900 50)) = 1050"
  using overlay_display_available_sign [of 8900 50]
  by (simp add: TOTAL_TICKETS_def)

text \<open>
  C5. Display-layer invariant: for every snapshot that reaches the listeners, the numbers
  returned by \<open>useBasicCounters\<close> and by \<open>useDisplayStats\<close> satisfy
  displaySold + displayAvailable + reserved = total, the display-available count being
  total - displaySold - reserved.
\<close>

theorem display_invariant:
  assumes "published d"
  shows "soldTickets_bc (useBasicCounters d) + availableTickets_bc (useBasicCounters d)
           + reservedTickets_mc d = totalTickets_bc (useBasicCounters d)
         \<and> availableTickets_bc (useBasicCounters d)
             = totalTickets_bc (useBasicCounters d) - soldTickets_bc (useBasicCounters d)
               - reservedTickets_mc d
         \<and> soldCount_ds (useDisplayStats d) + availableCount_ds (useDisplayStats d)
             + reservedCount_ds (useDisplayStats d) = totalCount_ds (useDisplayStats d)
         \<and> availableCount_ds (useDisplayStats d)
             = totalCount_ds (useDisplayStats d) - soldCount_ds (useDisplayStats d)
               - reservedCount_ds (useDisplayStats d)
         \<and> totalCount_ds (useDisplayStats d) = TOTAL_TICKETS"
  using published_total [OF assms]
  by (simp add: useBasicCounters_def useDisplayStats_def Let_def)

text \<open>C5, for the snapshot computed when the fetch fails (no sold, no reserved ticket).\<close>

theorem display_invariant_witness:
  "published (updateMasterCounters None)
   \<and> soldCount_ds (useDisplayStats (updateMasterCounters None)) = 1200
   \<and> availableCount_ds (useDisplayStats (updateMasterCounters None)) = 8800
   \<and> reservedCount_ds (useDisplayStats (updateMasterCounters None)) = 0
   \<and> totalCount_ds (useDisplayStats (updateMasterCounters None)) = 10000"
proof -
  have "useDisplayStats (updateMasterCounters None)
          = \<lparr>soldCount_ds = 1200, availableCount_ds = 8800, reservedCount_ds = 0,
             totalCount_ds = 10000, soldPercentage_ds = 12, realSoldCount_ds = 0,
             isConnected_ds = True\<rparr>"
    by (simp add: updateMasterCounters_def fetchRealData_def newData_def Let_def
          useDisplayStats_def displaySoldCount_calculateFOMO TOTAL_TICKETS_def)
  then show ?thesis
    using display_invariant [OF pub_update, of None] pub_update [of None] by simp
qed

section \<open>Claims about reservation, confirmation and release\<close>

text \<open>
  C7. Expiry is idempotent: releasing the same ticket numbers twice in a row gives the
  state that releasing them once gives, also when the scheduled recomputation of the
  available tickets runs after each release; the second release changes neither the
  reserved list nor the status of any ticket object.
\<close>

theorem release_idempotent:
  "releaseReservedTickets p ns (releaseReservedTickets p ns s) = releaseReservedTickets p ns s
   \<and> updateAvailableTickets (releaseReservedTickets p ns
        (updateAvailableTickets (releaseReservedTickets p ns s)))
      = updateAvailableTickets (releaseReservedTickets p ns s)
   \<and> reservedTickets (releaseReservedTickets p ns (releaseReservedTickets p ns s))
      = reservedTickets (releaseReservedTickets p ns s)
   \<and> map status (tickets (releaseReservedTickets p ns (releaseReservedTickets p ns s)))
      = map status (tickets (releaseReservedTickets p ns s))"
  by (simp add: release_idem release_update_commute update_avail_irrelevant)

text \<open>
  C2, as stated, fails. Ticket 5 is sold, the others are available; reserving the numbers
  1 to 10 does not fail and puts all ten, ticket 5 included, into the reserved list.
\<close>

theorem reserve_not_all_or_nothing_counterexample:
  "5 \<in> set (soldTickets (setSoldTicketsFromDB [5] initialState))
   \<and> reservedTickets (setSoldTicketsFromDB [5] initialState) = []
   \<and> reservedTickets (reserveTickets exampleId formatTicketNumber4 0
        [1, 2, 3, 4, 5, 6, 7, 8, 9, 10] ''H'' (setSoldTicketsFromDB [5] initialState))
      = [1, 2, 3, 4, 5, 6, 7, 8, 9, 10]"
  by (simp add: reserve_fields setFromDB_fields initialState_def)

text \<open>
  C2, amended. \<open>reserveTickets\<close> checks nothing and never fails: it appends every
  requested number to the reserved list, makes the first ticket object of each requested
  number Reserved, empties the selection and leaves the sold list, the available list and
  the errors as they are. \<open>reserveTicketsInDB\<close>, when connected and without a database
  error, answers \<open>true\<close> and moves exactly the requested rows whose status is
  \<open>disponible\<close> to \<open>reservado\<close>; every other row keeps its status.
\<close>

theorem reserve_unconditional:
  "reservedTickets (reserveTickets g f now ns c s) = reservedTickets s @ ns
   \<and> soldTickets (reserveTickets g f now ns c s) = soldTickets s
   \<and> availableTickets (reserveTickets g f now ns c s) = availableTickets s
   \<and> selectedTickets (reserveTickets g f now ns c s) = []
   \<and> errors (reserveTickets g f now ns c s) = errors s
   \<and> map (\<lambda>n. map_of (ticketView (tickets (reserveTickets g f now ns c s))) (f n)) ns
        = map (\<lambda>n. Some Reserved) ns
   \<and> fst (reserveTicketsInDB True False now ns c db) = True
   \<and> map t_number (snd (reserveTicketsInDB True False now ns c db)) = map t_number db
   \<and> map t_status (snd (reserveTicketsInDB True False now ns c db))
        = map (\<lambda>t. if t_number t \<in> set ns \<and> t_status t = disponible
                     then reservado else t_status t) db"
  using reserve_status_all [of g f now ns c s] reserveInDB_numbers [of now ns c db]
    reserveInDB_statuses [of now ns c db]
  by (simp add: reserve_fields reserveInDB_result)

text \<open>
  C2, amended, on a table with ticket 1 free and ticket 5 sold: the request for both is
  answered with \<open>true\<close>, ticket 1 becomes reserved and ticket 5 stays sold; in the store
  both numbers enter the reserved list and 5 stays in the sold list.
\<close>

theorem reserve_unconditional_witness:
  "reserveTicketsInDB True False 7 [1, 5] ''H''
     [\<lparr>t_number = 1, t_status = disponible, t_customer_id = None, t_reserved_at = None,
        t_sold_at = None\<rparr>,
      \<lparr>t_number = 5, t_status = vendido, t_customer_id = Some ''G'', t_reserved_at = None,
        t_sold_at = Some 3\<rparr>]
   = (True,
      [\<lparr>t_number = 1, t_status = reservado, t_customer_id = Some ''H'',
         t_reserved_at = Some 7, t_sold_at = None\<rparr>,
       \<lparr>t_number = 5, t_status = vendido, t_customer_id = Some ''G'', t_reserved_at = None,
         t_sold_at = Some 3\<rparr>])
   \<and> reservedTickets (reserveTickets exampleId formatTicketNumber4 7 [1, 5] ''H''
        (setSoldTicketsFromDB [5] initialState)) = [1, 5]
   \<and> soldTickets (reserveTickets exampleId formatTicketNumber4 7 [1, 5] ''H''
        (setSoldTicketsFromDB [5] initialState)) = [5]"
  using reserve_unconditional [of exampleId formatTicketNumber4 7 "[1, 5]" "''H''"
      "setSoldTicketsFromDB [5] initialState"]
  by (simp add: reserveTicketsInDB_def setFromDB_fields initialState_def)

text \<open>
  C3, as stated, fails. Tickets 1, 2, 3 are reserved and then confirmed twice: the second
  confirmation reports no error, and the sold count goes from 3 to 6.
\<close>

theorem confirm_twice_counterexample:
  "soldCount (markTicketsAsSold exampleId formatTicketNumber4 1 [1, 2, 3] ''H''
       (reserveTickets exampleId formatTicketNumber4 0 [1, 2, 3] ''H'' initialState)) = 3
   \<and> soldCount (markTicketsAsSold exampleId formatTicketNumber4 2 [1, 2, 3] ''H''
       (markTicketsAsSold exampleId formatTicketNumber4 1 [1, 2, 3] ''H''
         (reserveTickets exampleId formatTicketNumber4 0 [1, 2, 3] ''H'' initialState))) = 6
   \<and> errors (markTicketsAsSold exampleId formatTicketNumber4 2 [1, 2, 3] ''H''
       (markTicketsAsSold exampleId formatTicketNumber4 1 [1, 2, 3] ''H''
         (reserveTickets exampleId formatTicketNumber4 0 [1, 2, 3] ''H'' initialState))) = []
   \<and> soldTickets (markTicketsAsSold exampleId formatTicketNumber4 2 [1, 2, 3] ''H''
       (markTicketsAsSold exampleId formatTicketNumber4 1 [1, 2, 3] ''H''
         (reserveTickets exampleId formatTicketNumber4 0 [1, 2, 3] ''H'' initialState)))
      = [1, 2, 3, 1, 2, 3]"
  by (simp add: soldCount_def mark_fields reserve_fields initialState_def)

text \<open>
  C3, amended. \<open>markTicketsAsSold\<close> needs no reservation and never fails. It removes the
  numbers from the reserved list, adds them to the sold numbers and makes the first ticket
  object of each number Sold. A second call with the same numbers reports no error and
  leaves the reserved list, the set of sold numbers and the number and status of every
  ticket object as they were after the first call.
\<close>

theorem confirm_second_call:
  "reservedTickets (markTicketsAsSold g f now ns c s)
     = filter (\<lambda>num. num \<notin> set ns) (reservedTickets s)
   \<and> set (soldTickets (markTicketsAsSold g f now ns c s)) = set (soldTickets s) \<union> set ns
   \<and> map (\<lambda>n. map_of (ticketView (tickets (markTicketsAsSold g f now ns c s))) (f n)) ns
        = map (\<lambda>n. Some Sold) ns
   \<and> reservedTickets (markTicketsAsSold g' f now' ns c' (markTicketsAsSold g f now ns c s))
        = reservedTickets (markTicketsAsSold g f now ns c s)
   \<and> set (soldTickets (markTicketsAsSold g' f now' ns c' (markTicketsAsSold g f now ns c s)))
        = set (soldTickets (markTicketsAsSold g f now ns c s))
   \<and> ticketView (tickets (markTicketsAsSold g' f now' ns c' (markTicketsAsSold g f now ns c s)))
        = ticketView (tickets (markTicketsAsSold g f now ns c s))
   \<and> errors (markTicketsAsSold g' f now' ns c' (markTicketsAsSold g f now ns c s)) = errors s"
  using mark_status_all [of g f now ns c s] mark_twice_view [of g' f now' ns c' g now c s]
  by (simp add: mark_fields Un_assoc)

section \<open>Claims about quick selection\<close>

text \<open>
  C10, as stated, fails for a negative count. With all 10000 tickets available, 2 and 9000
  selected before and the count \<open>-1\<close>, the guard \<open>availableTickets.length < count\<close> is
  false and no error is reported, so the call succeeds; \<open>slice(0, -1)\<close> keeps all drawn
  numbers but the last, and the new selection has 9999 elements, not \<open>count\<close> many.
\<close>

theorem quickSelect_negative_count_counterexample:
  "\<not> int (length (availableTickets ((updateAvailableTickets initialState)
          \<lparr>selectedTickets := [2, 9000]\<rparr>))) < - 1
   \<and> mset [1..TOTAL_TICKETS]
        = mset (availableTickets ((updateAvailableTickets initialState)
            \<lparr>selectedTickets := [2, 9000]\<rparr>))
   \<and> errors (quickSelect [1..TOTAL_TICKETS] (- 1)
        ((updateAvailableTickets initialState)\<lparr>selectedTickets := [2, 9000]\<rparr>)) = []
   \<and> int (length (selectedTickets (quickSelect [1..TOTAL_TICKETS] (- 1)
        ((updateAvailableTickets initialState)\<lparr>selectedTickets := [2, 9000]\<rparr>)))) = 9999"
proof -
  let ?s = "(updateAvailableTickets initialState)\<lparr>selectedTickets := [2, 9000]\<rparr>"
  have av: "availableTickets ?s = [1..TOTAL_TICKETS]"
    using updateAvailable_initial by simp
  have len: "int (length (availableTickets ?s)) = 10000"
    using available_initial_length by simp
  then have ok: "\<not> int (length (availableTickets ?s)) < - 1"
    by simp
  have "errors ?s = []"
    by (simp add: updateAvailableTickets_def initialState_def Let_def)
  then have errs: "errors (quickSelect [1..TOTAL_TICKETS] (- 1) ?s) = []"
    using ok by (simp add: quickSelect_def Let_def)
  have "length (selectedTickets (quickSelect [1..TOTAL_TICKETS] (- 1) ?s))
          = length (slice0 [1..TOTAL_TICKETS] (- 1))"
    by (simp only: quickSelect_selected [OF ok] length_sort)
  also have "\<dots> = nat (int (length [1..TOTAL_TICKETS]) + (- 1))"
    by (rule slice0_neg_length) simp
  also have "\<dots> = 9999"
    by (simp only: length_upto) (simp add: TOTAL_TICKETS_def)
  finally have size: "int (length (selectedTickets (quickSelect [1..TOTAL_TICKETS] (- 1) ?s)))
                        = 9999"
    by simp
  have "mset [1..TOTAL_TICKETS] = mset (availableTickets ?s)"
    by (simp only: av)
  then show ?thesis
    using ok errs size by (simp only: simp_thms)
qed

text \<open>
  C10, amended. A successful \<open>quickSelect\<close> replaces the selection: the new selection is
  the list of the freshly drawn numbers (the slice of the shuffled available list) in
  ascending order, whatever was selected before; a number selected before is selected
  afterwards only if it was drawn again; and for a count of at least 0 the new selection
  has exactly count elements.
\<close>

theorem quickSelect_replaces_selection:
  assumes "\<not> int (length (availableTickets s)) < cnt"
  shows "selectedTickets (quickSelect shuffled cnt s) = sort (slice0 shuffled cnt)
         \<and> mset (selectedTickets (quickSelect shuffled cnt s)) = mset (slice0 shuffled cnt)
         \<and> selectedTickets (quickSelect shuffled cnt (s\<lparr>selectedTickets := old\<rparr>))
             = selectedTickets (quickSelect shuffled cnt s)
         \<and> (\<forall>t \<in> set (selectedTickets s).
               t \<in> set (selectedTickets (quickSelect shuffled cnt s)) \<longrightarrow>
               t \<in> set (slice0 shuffled cnt))
         \<and> (0 \<le> cnt \<and> mset shuffled = mset (availableTickets s) \<longrightarrow>
               int (length (selectedTickets (quickSelect shuffled cnt s))) = cnt)"
proof -
  note sel = quickSelect_selected [OF assms, of shuffled]
  have "\<not> int (length (availableTickets (s\<lparr>selectedTickets := old\<rparr>))) < cnt"
    using assms by simp
  then have "selectedTickets (quickSelect shuffled cnt (s\<lparr>selectedTickets := old\<rparr>))
               = sort (slice0 shuffled cnt)"
    by (rule quickSelect_selected)
  moreover have "int (length (sort (slice0 shuffled cnt))) = cnt"
    if "0 \<le> cnt" and "mset shuffled = mset (availableTickets s)"
  proof -
    have "length shuffled = length (availableTickets s)"
      using that(2) by (rule mset_eq_length)
    then show ?thesis
      using slice0_length [of cnt shuffled] that(1) assms by simp
  qed
  ultimately show ?thesis
    by (simp add: sel)
qed

text \<open>
  C10, amended, with 2 and 9000 selected before and 1, 2, 3 drawn: 9000 is gone, 2 is there
  because it was drawn again.
\<close>

theorem quickSelect_replaces_selection_witness:
  "\<not> int (length (availableTickets ((updateAvailableTickets initialState)
          \<lparr>selectedTickets := [2, 9000]\<rparr>))) < 3
   \<and> (0::int) \<le> 3
   \<and> mset [1..TOTAL_TICKETS]
        = mset (availableTickets ((updateAvailableTickets initialState)
            \<lparr>selectedTickets := [2, 9000]\<rparr>))
   \<and> selectedTickets (quickSelect [1..TOTAL_TICKETS] 3
        ((updateAvailableTickets initialState)\<lparr>selectedTickets := [2, 9000]\<rparr>)) = [1, 2, 3]"
proof -
  let ?s = "(updateAvailableTickets initialState)\<lparr>selectedTickets := [2, 9000]\<rparr>"
  have av: "availableTickets ?s = [1..TOTAL_TICKETS]"
    using updateAvailable_initial by simp
  have len: "int (length (availableTickets ?s)) = 10000"
    using available_initial_length by simp
  then have ok: "\<not> int (length (availableTickets ?s)) < 3"
    by simp
  have "selectedTickets (quickSelect [1..TOTAL_TICKETS] 3 ?s) = [1, 2, 3]"
    using quickSelect_replaces_selection [OF ok, of "[1..TOTAL_TICKETS]" "[]"]
    by (simp only: first_three_drawn)
  then show ?thesis
    using ok by (simp only: av) simp
qed

section \<open>Claims about the synchronisation and the real counts\<close>

text \<open>
  C9. The synthetic tickets avoid the real sold numbers only. With no ticket sold, ticket 1
  reserved, the percentage 8 and the draws 1, 2, ..., 800, \<open>loadInitialData\<close> ends and
  writes a sold list and a reserved list into the store that both contain ticket 1.
\<close>

theorem fomo_ticket_also_reserved:
  "\<exists>s'. loadInitialData True
           (Some [\<lparr>t_number = 1, t_status = reservado, t_customer_id = Some ''H'',
                   t_reserved_at = Some 0, t_sold_at = None\<rparr>])
           8 exampleDraws initialState = Some s'
         \<and> 1 \<in> set (soldTickets s') \<and> 1 \<in> set (reservedTickets s')"
  by (simp add: loadInitialData_example exampleDraws_facts)

text \<open>
  C4, as stated, fails in the store. After the synchronisation of C9 the store holds 800
  sold numbers, 1 reserved number and 9200 available numbers: the sum is 10001.
\<close>

theorem store_real_sum_counterexample:
  "map_option realSum
     (loadInitialData True
        (Some [\<lparr>t_number = 1, t_status = reservado, t_customer_id = Some ''H'',
                t_reserved_at = Some 0, t_sold_at = None\<rparr>])
        8 exampleDraws initialState)
   = Some 10001"
proof -
  have "length [801..TOTAL_TICKETS] = 9200"
    by (simp only: length_upto) (simp add: TOTAL_TICKETS_def)
  then show ?thesis
    by (simp add: loadInitialData_example realSum_def soldCount_def reservedCount_def
          availableCount_def exampleDraws_facts)
qed

text \<open>
  C4, amended. Every snapshot of the master counters satisfies
  sold + reserved + available = total = 10000, the available count being
  total - sold - reserved. In the store, after \<open>_updateAvailableTickets\<close>, the lengths of
  the sold, reserved and available lists add up to the total exactly when the sold and
  the reserved list together hold no number twice and only numbers from 1 to 10000.
\<close>

theorem real_layer_invariant:
  assumes "published d"
  shows "soldTickets_mc d + reservedTickets_mc d + availableTickets_mc d = totalTickets_mc d
         \<and> totalTickets_mc d = 10000
         \<and> availableTickets_mc d = totalTickets_mc d - soldTickets_mc d - reservedTickets_mc d
         \<and> (realSum (updateAvailableTickets s) = TOTAL_TICKETS)
             = (distinct (soldTickets s @ reservedTickets s)
                \<and> set (soldTickets s @ reservedTickets s) \<subseteq> {1..TOTAL_TICKETS})"
proof -
  have master: "soldTickets_mc d + reservedTickets_mc d + availableTickets_mc d = totalTickets_mc d
                \<and> totalTickets_mc d = 10000"
    using assms
    by (induction rule: published.induct)
       (simp_all add: updateMasterCounters_def newData_def fallbackData_def loadingData_def
          Let_def TOTAL_TICKETS_def split: prod.splits)
  have "0 \<le> TOTAL_TICKETS"
    by (simp add: TOTAL_TICKETS_def)
  then have "(realSum (updateAvailableTickets s) = TOTAL_TICKETS)
               = (distinct (soldTickets s @ reservedTickets s)
                  \<and> set (soldTickets s @ reservedTickets s) \<subseteq> {1..TOTAL_TICKETS})"
    using count_balance [of "soldTickets s @ reservedTickets s" TOTAL_TICKETS]
    by (simp only: realSum_update) simp
  then show ?thesis
    using master by simp
qed

text \<open>
  C4, amended, for the snapshot computed when the fetch fails and for the store with the
  sold numbers 1, 2 and the reserved number 3.
\<close>

theorem real_layer_invariant_witness:
  "published (updateMasterCounters None)
   \<and> availableTickets_mc (updateMasterCounters None) = 10000
   \<and> realSum (updateAvailableTickets
        (setReservedTicketsFromDB [3] (setSoldTicketsFromDB [1, 2] initialState)))
      = TOTAL_TICKETS"
proof -
  let ?s = "setReservedTicketsFromDB [3] (setSoldTicketsFromDB [1, 2] initialState)"
  have "distinct (soldTickets ?s @ reservedTickets ?s)
        \<and> set (soldTickets ?s @ reservedTickets ?s) \<subseteq> {1..TOTAL_TICKETS}"
    by (simp add: setFromDB_fields TOTAL_TICKETS_def)
  moreover have "soldTickets_mc (updateMasterCounters None) = 0"
    and "reservedTickets_mc (updateMasterCounters None) = 0"
    by (simp_all add: updateMasterCounters_def fetchRealData_def newData_def Let_def)
  ultimately show ?thesis
    using real_layer_invariant [OF pub_update, of None ?s] pub_update [of None] by simp
qed

end
